theory Spec2Isabelle
  imports Main
begin

section \<open>Python string primitives used by the handlers\<close>

text \<open>
  A string is a list of code points, and a \<open>char\<close> is a code point below 256: the
  model covers the strings of Python's \<open>str\<close> whose characters all lie in that range
  (\<open>CHR 0xA0\<close> is the no-break space U+00A0, not a byte of an encoding). Code points
  from 256 on are not represented.

  \<open>isspace\<close> is \<open>str.isspace\<close> on one character, the whitespace that
  \<open>str.strip()\<close> removes: below 256 these are the code points 9 to 13, 28 to 32,
  U+0085 and U+00A0.
\<close>

definition isspace :: "char \<Rightarrow> bool" where
  "isspace c =
     (let n = (of_char c :: nat)
      in (9 \<le> n \<and> n \<le> 13) \<or> (28 \<le> n \<and> n \<le> 32) \<or> n = 133 \<or> n = 160)"

definition strip :: "string \<Rightarrow> string" where
  "strip s = rev (dropWhile isspace (rev (dropWhile isspace s)))"

definition startswith :: "string \<Rightarrow> string \<Rightarrow> bool" where
  "startswith s p = (take (length p) s = p)"

definition isdigit :: "char \<Rightarrow> bool" where
  "isdigit c = (let n = (of_char c :: nat) in 48 \<le> n \<and> n \<le> 57)"

definition digit_val :: "char \<Rightarrow> int" where
  "digit_val c = int (of_char c) - 48"

text \<open>
  The digits of \<open>int(s)\<close> in base 10: decimal digits, with single underscores allowed
  between two digits. \<open>None\<close> is Python's \<open>ValueError\<close>.
\<close>

fun parse_digits :: "string \<Rightarrow> int \<Rightarrow> int option" where
  "parse_digits [] acc = Some acc"
| "parse_digits (c # cs) acc =
     (if isdigit c then parse_digits cs (acc * 10 + digit_val c)
      else if c = CHR ''_'' then
        (case cs of
           [] \<Rightarrow> None
         | d # ds \<Rightarrow> if isdigit d then parse_digits cs acc else None)
      else None)"

text \<open>
  The whitespace \<open>int(s)\<close> skips by itself at both ends of the string: tab to
  carriage return and the space, and the whitespace beyond ASCII (below 256: U+0085 and
  U+00A0), which it reads as a space. It is a subset of what \<open>str.strip()\<close> removes,
  and the handler strips before it converts.
\<close>

definition int_space :: "char \<Rightarrow> bool" where
  "int_space c =
     (let n = (of_char c :: nat) in (9 \<le> n \<and> n \<le> 13) \<or> n = 32 \<or> n = 133 \<or> n = 160)"

text \<open>
  Python's \<open>int(s)\<close> on a string: surrounding whitespace is ignored, one optional sign,
  then at least one digit. Below 256 the decimal digits are the ASCII digits. The
  interpreter's configurable limit on the number of digits of a conversion is a setting
  of the runtime and is not part of this model.
\<close>

definition py_int :: "string \<Rightarrow> int option" where
  "py_int s =
     (let t = rev (dropWhile int_space (rev (dropWhile int_space s)));
          neg = (case t of [] \<Rightarrow> False | c # _ \<Rightarrow> c = CHR ''-'');
          body = (case t of [] \<Rightarrow> [] | c # r \<Rightarrow> if c = CHR ''-'' \<or> c = CHR ''+'' then r else t)
      in case body of
           [] \<Rightarrow> None
         | d # _ \<Rightarrow>
             if isdigit d
             then map_option (\<lambda>v. if neg then - v else v) (parse_digits body 0)
             else None)"

text \<open>\<open>str(n)\<close> for an integer, as the f-strings of the handlers format it.\<close>

definition digit_char :: "nat \<Rightarrow> char" where
  "digit_char d = ''0123456789'' ! d"

fun str_nat :: "nat \<Rightarrow> string" where
  "str_nat n =
     (if n < 10 then [digit_char n]
      else str_nat (n div 10) @ [digit_char (n mod 10)])"

declare str_nat.simps [simp del]

definition str_int :: "int \<Rightarrow> string" where
  "str_int i = (if i < 0 then CHR ''-'' # str_nat (nat (- i)) else str_nat (nat i))"

text \<open>
  \<open>s.split(sep, 1)\<close> unpacked into two names: the parts before and after the first
  separator; \<open>None\<close> when there is no separator (the unpacking raises \<open>ValueError\<close>).
\<close>

definition split_once :: "char \<Rightarrow> string \<Rightarrow> (string \<times> string) option" where
  "split_once sep s =
     (case dropWhile (\<lambda>c. c \<noteq> sep) s of
        [] \<Rightarrow> None
      | _ # rest \<Rightarrow> Some (takeWhile (\<lambda>c. c \<noteq> sep) s, rest))"

section \<open>The two mention patterns of the opponent resolver\<close>

text \<open>The character class \<open>[A-Z0-9]\<close>.\<close>

definition is_id_char :: "char \<Rightarrow> bool" where
  "is_id_char c =
     (let n = (of_char c :: nat) in (65 \<le> n \<and> n \<le> 90) \<or> (48 \<le> n \<and> n \<le> 57))"

text \<open>
  The pattern \<^verbatim>\<open><@([A-Z0-9]+)(?:\|[^>]+)?>\<close> matched at the start of a string; the
  result is group 1. Both repetitions are greedy and are followed by a character outside
  their class, so backtracking into them never finds a match the longest run misses: the
  matcher takes the longest run each time.
\<close>

definition match_canonical :: "string \<Rightarrow> string option" where
  "match_canonical s =
     (case s of
        c1 # c2 # rest \<Rightarrow>
          if c1 = CHR ''<'' \<and> c2 = CHR ''@'' then
            (let uid = takeWhile is_id_char rest; after = dropWhile is_id_char rest in
             if uid = [] then None
             else
               (case after of
                  [] \<Rightarrow> None
                | d # more \<Rightarrow>
                    if d = CHR ''>'' then Some uid
                    else if d = CHR ''|'' then
                      (let name = takeWhile (\<lambda>c. c \<noteq> CHR ''>'') more;
                           close = dropWhile (\<lambda>c. c \<noteq> CHR ''>'') more
                       in if name \<noteq> [] \<and> close \<noteq> [] then Some uid else None)
                    else None))
          else None
      | _ \<Rightarrow> None)"

text \<open>The pattern \<^verbatim>\<open>@([UW][A-Z0-9]+)\<close> matched at the start of a string.\<close>

definition match_loose :: "string \<Rightarrow> string option" where
  "match_loose s =
     (case s of
        c1 # c2 # rest \<Rightarrow>
          if c1 = CHR ''@'' \<and> (c2 = CHR ''U'' \<or> c2 = CHR ''W'') then
            (let run = takeWhile is_id_char rest in
             if run = [] then None else Some (c2 # run))
          else None
      | _ \<Rightarrow> None)"

text \<open>
  \<open>re.search\<close>: the match at the leftmost position of the text where the pattern
  matches. Both patterns need at least two characters, so the empty rest at the end of
  the text has no match.
\<close>

fun re_search :: "(string \<Rightarrow> string option) \<Rightarrow> string \<Rightarrow> string option" where
  "re_search pat [] = None"
| "re_search pat (c # cs) =
     (case pat (c # cs) of
        Some g \<Rightarrow> Some g
      | None \<Rightarrow> re_search pat cs)"

text \<open>Lines 166 to 178 of \<open>handle_pingpong\<close>: the opponent id found in the text, if any.\<close>

definition resolve_opponent :: "string \<Rightarrow> string option" where
  "resolve_opponent text =
     (case re_search match_canonical text of
        Some g \<Rightarrow> Some g
      | None \<Rightarrow>
          (case re_search match_loose text of
             Some g \<Rightarrow> Some g
           | None \<Rightarrow> None))"

section \<open>The two tables\<close>

text \<open>
  A row of table \<open>matches\<close> (primary key \<open>id\<close>) and a row of table \<open>results\<close>.
  The serial \<open>id\<close> of a result is its position in the log.
\<close>

record match_row =
  m_id :: string
  m_challenger :: string
  m_opponent :: string
  m_channel :: string
  m_created_at :: int

record result_row =
  r_match_id :: string
  r_challenger :: string
  r_opponent :: string
  r_challenger_score :: int
  r_opponent_score :: int
  r_winner :: "string option"
  r_channel :: string
  r_submitted_by :: string
  r_submitted_at :: int

datatype db_op =
    InsertResult result_row
  | UpsertMatch match_row
  | SelectMatch string
  | DeleteMatch string

section \<open>The Slack side\<close>

text \<open>
  Of every payload the model keeps the fields the handlers read or write. The emoji, the
  en dash and the typographic apostrophes of the message texts are dropped or written
  in ASCII.
\<close>

datatype element =
    Button string "string option" string string
  | UsersSelect string string
  | PlainTextInput string string

datatype block =
    Section string
  | Actions "element list"
  | Input string string element

record view =
  callback_id :: "string option"
  private_metadata :: "string option"
  title :: string
  submit :: "string option"
  close :: string
  blocks :: "block list"

datatype slack_call =
    ViewsOpen string view
  | ViewsUpdate string view
  | ConversationsJoin string
  | ConversationsOpen string
  | ChatPostMessage string string "block list"

text \<open>
  A call of the Slack client returns (\<open>ApiOk\<close>, with the channel id of the response,
  which only \<open>conversations_open\<close> uses) or raises \<open>SlackApiError\<close> (\<open>ApiFail\<close>,
  with the \<open>error\<close> field of the response when it has one). The client is a parameter
  of every handler: what Slack answers is not decided by this program. Failures of the
  transport are outside the model, and so is standard output.
\<close>

datatype api_outcome = ApiOk string | ApiFail "string option"

type_synonym client = "slack_call \<Rightarrow> api_outcome"

datatype event =
    Ack
  | AckErrors "(string \<times> string) list"
  | Respond "string option" string "block list"
  | Api slack_call
  | Db db_op

datatype py_exception = SlackApiError "string option" | ValueError | StorageError

datatype status = Returned | Raised py_exception

text \<open>
  The state a handler runs in: the two tables, and the trace of everything the handlers
  did to the outside (acknowledgements, responses, API calls, database statements), in
  order.
\<close>

record state =
  matches :: "string \<rightharpoonup> match_row"
  results :: "result_row list"
  trace :: "event list"

definition emit :: "event \<Rightarrow> state \<Rightarrow> state" where
  "emit e s = s\<lparr>trace := trace s @ [e]\<rparr>"

definition call :: "client \<Rightarrow> slack_call \<Rightarrow> state \<Rightarrow> api_outcome \<times> state" where
  "call client c s = (client c, emit (Api c) s)"

text \<open>A call that is the last statement of its path: its error, if any, propagates.\<close>

definition call_last :: "client \<Rightarrow> slack_call \<Rightarrow> state \<Rightarrow> status \<times> state" where
  "call_last client c s =
     (case call client c s of
        (ApiOk _, s') \<Rightarrow> (Returned, s')
      | (ApiFail err, s') \<Rightarrow> (Raised (SlackApiError err), s'))"

text \<open>\<open>str(err)\<close> for the optional error code.\<close>

definition str_opt :: "string option \<Rightarrow> string" where
  "str_opt err = (case err of None \<Rightarrow> ''None'' | Some e \<Rightarrow> e)"

section \<open>Persistence\<close>

text \<open>
  The database is the one \<open>DATABASE_URL\<close> names: the SQLite file by default, or
  Postgres. It is a parameter of every function that writes. An integer bound to an
  \<open>INTEGER\<close> column must fit the engine's integer: 64 bits signed on SQLite, 32 bits
  signed on Postgres. A value outside makes the statement raise (\<open>StorageError\<close>
  stands for the exception, which is not a \<open>SlackApiError\<close>) and the transaction
  stores nothing. Other failures of the database are outside the model.
\<close>

datatype engine = Sqlite | Postgres

definition integer_fits :: "engine \<Rightarrow> int \<Rightarrow> bool" where
  "integer_fits e i =
     (case e of
        Sqlite \<Rightarrow> - 9223372036854775808 \<le> i \<and> i \<le> 9223372036854775807
      | Postgres \<Rightarrow> - 2147483648 \<le> i \<and> i \<le> 2147483647)"

text \<open>
  Every function that reads the clock takes the reading as \<open>now\<close>. The trace records
  each statement as it is issued, also one that raises.
\<close>

definition record_result ::
  "engine \<Rightarrow> string \<Rightarrow> string \<Rightarrow> string \<Rightarrow> int \<Rightarrow> int \<Rightarrow> string option \<Rightarrow> string \<Rightarrow> string
     \<Rightarrow> int \<Rightarrow> state \<Rightarrow> status \<times> state" where
  "record_result db match_id challenger opponent challenger_score opponent_score winner
       channel submitted_by now s =
     (let row = \<lparr>r_match_id = match_id, r_challenger = challenger, r_opponent = opponent,
                 r_challenger_score = challenger_score, r_opponent_score = opponent_score,
                 r_winner = winner, r_channel = channel, r_submitted_by = submitted_by,
                 r_submitted_at = now\<rparr>;
          s1 = emit (Db (InsertResult row)) s
      in if integer_fits db challenger_score \<and> integer_fits db opponent_score
            \<and> integer_fits db now
         then (Returned, s1\<lparr>results := results s @ [row]\<rparr>)
         else (Raised StorageError, s1))"

definition create_match ::
  "engine \<Rightarrow> string \<Rightarrow> string \<Rightarrow> string \<Rightarrow> string \<Rightarrow> int \<Rightarrow> state \<Rightarrow> status \<times> state" where
  "create_match db match_id challenger opponent channel now s =
     (let row = \<lparr>m_id = match_id, m_challenger = challenger, m_opponent = opponent,
                 m_channel = channel, m_created_at = now\<rparr>;
          s1 = emit (Db (UpsertMatch row)) s
      in if integer_fits db now
         then (Returned, s1\<lparr>matches := (matches s)(match_id \<mapsto> row)\<rparr>)
         else (Raised StorageError, s1))"

definition get_match :: "string \<Rightarrow> state \<Rightarrow> match_row option \<times> state" where
  "get_match match_id s = (matches s match_id, emit (Db (SelectMatch match_id)) s)"

definition delete_match :: "string \<Rightarrow> state \<Rightarrow> state" where
  "delete_match match_id s =
     emit (Db (DeleteMatch match_id)) (s\<lparr>matches := (matches s)(match_id := None)\<rparr>)"

section \<open>Issuing a challenge\<close>

record command =
  c_text :: string
  c_user_id :: string
  c_channel_id :: string
  c_trigger_id :: string

definition challenge_blocks :: "string \<Rightarrow> string \<Rightarrow> string \<Rightarrow> block list" where
  "challenge_blocks challenger opponent match_id =
     [Section (''<@'' @ challenger @ ''> has challenged <@'' @ opponent
               @ ''> to a ping pong match!''),
      Actions [Button ''Accept'' (Some ''primary'') ''accept_match'' match_id,
               Button ''Decline'' (Some ''danger'') ''decline_match'' match_id]]"

definition challenge_text :: "string \<Rightarrow> string \<Rightarrow> string" where
  "challenge_text challenger opponent =
     ''<@'' @ challenger @ ''> challenged <@'' @ opponent @ ''>!''"

definition pick_opponent_view :: "string \<Rightarrow> string \<Rightarrow> view" where
  "pick_opponent_view channel_id user_id =
     \<lparr>callback_id = Some ''pingpong_pick_opponent'',
      private_metadata = Some (channel_id @ ''|'' @ user_id),
      title = ''Pingpong Challenge'',
      submit = Some ''Challenge'',
      close = ''Cancel'',
      blocks = [Input ''opponent_block'' ''Opponent''
                  (UsersSelect ''opponent_select'' ''Pick someone to challenge'')]\<rparr>"

definition new_match_id :: "string \<Rightarrow> int \<Rightarrow> string" where
  "new_match_id user_id now = ''match_'' @ user_id @ ''_'' @ str_int now"

text \<open>
  \<open>handle_pingpong\<close> reads the clock twice: \<open>now_id\<close> for the match id, \<open>now_row\<close>
  inside \<open>create_match\<close>.
\<close>

definition handle_pingpong ::
  "engine \<Rightarrow> client \<Rightarrow> command \<Rightarrow> int \<Rightarrow> int \<Rightarrow> state \<Rightarrow> status \<times> state" where
  "handle_pingpong db client cmd now_id now_row s0 =
     (let s1 = emit Ack s0;
          text = strip (c_text cmd);
          user_id = c_user_id cmd;
          channel_id = c_channel_id cmd;
          open_picker =
            call_last client
              (ViewsOpen (c_trigger_id cmd) (pick_opponent_view channel_id user_id)) s1
      in if startswith text ''challenge'' then
           (case resolve_opponent text of
              None \<Rightarrow> open_picker
            | Some opponent_id \<Rightarrow>
                if opponent_id = [] then open_picker
                else
                  (let match_id = new_match_id user_id now_id in
                   case create_match db match_id user_id opponent_id channel_id now_row s1 of
                     (Raised e, s2) \<Rightarrow> (Raised e, s2)
                   | (Returned, s2) \<Rightarrow>
                       (Returned,
                        emit (Respond (Some ''in_channel'')
                                (challenge_text user_id opponent_id)
                                (challenge_blocks user_id opponent_id match_id)) s2)))
         else (Returned, emit (Respond None ''Try `/pingpong challenge @someone`'' []) s1))"

section \<open>The opponent picked in the modal\<close>

record pick_body =
  p_private_metadata :: string
  p_selected_user :: string
  p_view_id :: string

definition post_failure_msg :: "string option \<Rightarrow> string" where
  "post_failure_msg err =
     (if err = Some ''not_in_channel'' then
        ''I couldn't post the challenge because I'm not in this channel.\<newline>\<newline>''
        @ ''If this is a *private* channel, run `/invite @pingpong-bot` in the channel, then try again.\<newline>''
        @ ''If it's *public*, make sure the app has the `channels:join` scope and is reinstalled.''
      else if err = Some ''missing_scope'' then
        ''I'm missing Slack permissions needed to post here.\<newline>\<newline>''
        @ ''Ask an admin to add the required scopes, then reinstall the app.''
      else ''I couldn't post the challenge (error: `'' @ str_opt err @ ''`).'')"

definition failure_view :: "string \<Rightarrow> view" where
  "failure_view msg =
     \<lparr>callback_id = None, private_metadata = None, title = ''Pingpong Challenge'',
      submit = None, close = ''Close'', blocks = [Section msg]\<rparr>"

text \<open>
  The handler of a failed post of the challenge (the outer \<open>except SlackApiError\<close>): the
  modal is updated with the remediation text; when that fails, a direct message to the
  challenger is tried; when that fails too, the handler returns.
\<close>

definition pick_post_failed :: "client \<Rightarrow> pick_body \<Rightarrow> string \<Rightarrow> string option \<Rightarrow> state \<Rightarrow> state" where
  "pick_post_failed client body challenger_id err s =
     (let msg = post_failure_msg err in
      case call client (ViewsUpdate (p_view_id body) (failure_view msg)) s of
        (ApiOk _, s1) \<Rightarrow> s1
      | (ApiFail _, s1) \<Rightarrow>
          (case call client (ConversationsOpen challenger_id) s1 of
             (ApiFail _, s2) \<Rightarrow> s2
           | (ApiOk dm_channel, s2) \<Rightarrow> snd (call client (ChatPostMessage dm_channel msg []) s2)))"

definition handle_pick_opponent ::
  "engine \<Rightarrow> client \<Rightarrow> pick_body \<Rightarrow> int \<Rightarrow> int \<Rightarrow> state \<Rightarrow> status \<times> state" where
  "handle_pick_opponent db client body now_id now_row s0 =
     (let s1 = emit Ack s0 in
      case split_once CHR ''|'' (p_private_metadata body) of
        None \<Rightarrow> (Raised ValueError, s1)
      | Some (channel_id, challenger_id) \<Rightarrow>
          (let opponent_id = p_selected_user body;
               match_id = new_match_id challenger_id now_id
           in case create_match db match_id challenger_id opponent_id channel_id now_row s1 of
                (Raised e, s2) \<Rightarrow> (Raised e, s2)
              | (Returned, s2) \<Rightarrow>
                  (let s3 = snd (call client (ConversationsJoin channel_id) s2)
                   in case call client
                             (ChatPostMessage channel_id
                                (challenge_text challenger_id opponent_id)
                                (challenge_blocks challenger_id opponent_id match_id)) s3 of
                        (ApiOk _, s4) \<Rightarrow> (Returned, s4)
                      | (ApiFail err, s4) \<Rightarrow>
                          (Returned, pick_post_failed client body challenger_id err s4))))"

section \<open>Accept, decline, score entry\<close>

text \<open>The body of a button click: the button's value, the clicking user, the trigger.\<close>

record action_body =
  a_value :: string
  a_user_id :: string
  a_trigger_id :: string

definition accept_match :: "action_body \<Rightarrow> state \<Rightarrow> status \<times> state" where
  "accept_match body s0 =
     (let s1 = emit Ack s0;
          match_id = a_value body;
          (match_data, s2) = get_match match_id s1
      in case match_data of
           None \<Rightarrow> (Returned, emit (Respond None ''Match not found or expired.'' []) s2)
         | Some m \<Rightarrow>
             (Returned,
              emit (Respond None ''Match accepted!''
                      [Section (''Match accepted! <@'' @ m_challenger m @ ''> vs <@''
                                @ m_opponent m @ ''>. Go play''),
                       Actions [Button ''Submit Score'' None ''open_score_modal'' match_id]])
                s2))"

definition decline_match :: "action_body \<Rightarrow> state \<Rightarrow> status \<times> state" where
  "decline_match body s0 =
     (let s1 = emit Ack s0;
          match_id = a_value body;
          s2 = delete_match match_id s1
      in (Returned, emit (Respond None ''Match declined.'' []) s2))"

definition score_view :: "string \<Rightarrow> match_row \<Rightarrow> string \<Rightarrow> string \<Rightarrow> view" where
  "score_view match_id m your_label opponent_label =
     \<lparr>callback_id = Some ''submit_score'',
      private_metadata = Some match_id,
      title = ''Submit Score'',
      submit = Some ''Submit'',
      close = ''Cancel'',
      blocks =
        [Section (''Enter the final scores for <@'' @ m_challenger m @ ''> vs <@''
                  @ m_opponent m @ ''>.''),
         Input ''score_block_challenger'' your_label
           (PlainTextInput ''score_input_challenger'' ''e.g. 21''),
         Input ''score_block_opponent'' opponent_label
           (PlainTextInput ''score_input_opponent'' ''e.g. 15'')]\<rparr>"

definition open_score_modal :: "client \<Rightarrow> action_body \<Rightarrow> state \<Rightarrow> status \<times> state" where
  "open_score_modal client body s0 =
     (let s1 = emit Ack s0;
          match_id = a_value body;
          (match_data, s2) = get_match match_id s1
      in case match_data of
           None \<Rightarrow>
             call_last client
               (ChatPostMessage (a_user_id body)
                  ''Sorry, I couldn't find that match. It may have expired.'' []) s2
         | Some m \<Rightarrow>
             (let submitting_user = a_user_id body;
                  your_label = ''Your score'';
                  opponent_label =
                    (if submitting_user = m_challenger m
                     then ''Score for <@'' @ m_opponent m @ ''>''
                     else if submitting_user = m_opponent m
                     then ''Score for <@'' @ m_challenger m @ ''>''
                     else ''Opponent's score'')
              in call_last client
                   (ViewsOpen (a_trigger_id body)
                      (score_view match_id m your_label opponent_label)) s2))"

section \<open>Score submission\<close>

record score_body =
  s_challenger_score_raw :: string
  s_opponent_score_raw :: string
  s_private_metadata :: string
  s_user_id :: string

text \<open>Lines 512 to 517: the winner, or \<open>None\<close> for a tie.\<close>

definition winner_of :: "match_row \<Rightarrow> int \<Rightarrow> int \<Rightarrow> string option" where
  "winner_of match_data challenger_score opponent_score =
     (if challenger_score > opponent_score then Some (m_challenger match_data)
      else if opponent_score > challenger_score then Some (m_opponent match_data)
      else None)"

text \<open>\<open>if winner:\<close> is false for \<open>None\<close> and for the empty string.\<close>

definition winner_line :: "string option \<Rightarrow> string" where
  "winner_line winner =
     (case winner of
        None \<Rightarrow> ''\<newline>*Result:* Tie game''
      | Some w \<Rightarrow> if w = [] then ''\<newline>*Result:* Tie game'' else ''\<newline>*Winner:* <@'' @ w @ ''>'')"

definition result_text :: "match_row \<Rightarrow> int \<Rightarrow> int \<Rightarrow> string option \<Rightarrow> string" where
  "result_text m challenger_score opponent_score winner =
     ''Match Result: <@'' @ m_challenger m @ ''> vs <@'' @ m_opponent m @ ''>\<newline>''
     @ ''*Scores:* <@'' @ m_challenger m @ ''> '' @ str_int challenger_score @ '' - ''
     @ ''<@'' @ m_opponent m @ ''> '' @ str_int opponent_score
     @ winner_line winner"

text \<open>
  The \<open>try\<close> block of lines 505 to 546. A failed \<open>conversations_join\<close> is caught inside
  and ignored. The status is \<open>Raised\<close> when the insert raises, or when posting the
  result raises \<open>SlackApiError\<close>: the statements after the raising one are then not
  run.
\<close>

definition score_try ::
  "engine \<Rightarrow> client \<Rightarrow> score_body \<Rightarrow> int \<Rightarrow> string \<Rightarrow> match_row \<Rightarrow> int \<Rightarrow> int \<Rightarrow> state
     \<Rightarrow> status \<times> state" where
  "score_try db client body now match_id match_data challenger_score opponent_score s =
     (let channel = m_channel match_data;
          s1 = snd (call client (ConversationsJoin channel) s);
          winner = winner_of match_data challenger_score opponent_score;
          submitted_by = s_user_id body
      in case record_result db match_id (m_challenger match_data) (m_opponent match_data)
                challenger_score opponent_score winner channel submitted_by now s1 of
           (Raised e, s2) \<Rightarrow> (Raised e, s2)
         | (Returned, s2) \<Rightarrow>
             (case call client
                     (ChatPostMessage channel
                        (result_text match_data challenger_score opponent_score winner) [])
                     s2 of
                (ApiOk _, s3) \<Rightarrow> (Returned, delete_match match_id s3)
              | (ApiFail err, s3) \<Rightarrow> (Raised (SlackApiError err), s3)))"

text \<open>The \<open>except SlackApiError\<close> block of lines 547 to 565: the direct message.\<close>

definition score_post_failed ::
  "client \<Rightarrow> score_body \<Rightarrow> string \<Rightarrow> int \<Rightarrow> int \<Rightarrow> string option \<Rightarrow> state \<Rightarrow> state" where
  "score_post_failed client body match_id challenger_score opponent_score err s =
     (case call client (ConversationsOpen (s_user_id body)) s of
        (ApiFail _, s1) \<Rightarrow> s1
      | (ApiOk dm_channel, s1) \<Rightarrow>
          snd (call client
                 (ChatPostMessage dm_channel
                    (''I couldn't post the match result to the channel (error: `''
                     @ str_opt err @ ''`), but your scores were recorded as ''
                     @ str_int challenger_score @ ''-'' @ str_int opponent_score
                     @ '' for match `'' @ match_id @ ''`.'') []) s1))"

definition score_errors :: event where
  "score_errors = AckErrors [(''score_block_challenger'', ''Scores must be whole numbers.'')]"

text \<open>
  Only \<open>SlackApiError\<close> is caught around the \<open>try\<close> block: any other exception
  raised in it leaves the handler.
\<close>

definition handle_score_submission ::
  "engine \<Rightarrow> client \<Rightarrow> score_body \<Rightarrow> int \<Rightarrow> state \<Rightarrow> status \<times> state" where
  "handle_score_submission db client body now s0 =
     (let s1 = emit Ack s0 in
      case py_int (strip (s_challenger_score_raw body)) of
        None \<Rightarrow> (Returned, emit score_errors s1)
      | Some challenger_score \<Rightarrow>
          (case py_int (strip (s_opponent_score_raw body)) of
             None \<Rightarrow> (Returned, emit score_errors s1)
           | Some opponent_score \<Rightarrow>
               (let match_id = s_private_metadata body;
                    (match_data, s2) = get_match match_id s1
                in case match_data of
                     Some m \<Rightarrow>
                       (case score_try db client body now match_id m challenger_score
                               opponent_score s2 of
                          (Raised (SlackApiError err), s3) \<Rightarrow>
                            (Returned,
                             score_post_failed client body match_id challenger_score
                               opponent_score err s3)
                        | (st, s3) \<Rightarrow> (st, s3))
                   | None \<Rightarrow>
                       call_last client
                         (ChatPostMessage (s_user_id body)
                            ''Score recorded (match context lost).'' []) s2)))"

section \<open>Mention tokens, as the spec words them\<close>

text \<open>
  These two predicates follow the spec, not the source; the resolver is compared with
  them below. A canonical mention is a bracketed reference \<^verbatim>\<open><@ID>\<close> or
  \<^verbatim>\<open><@ID|name>\<close>: the id a non-empty code of capital letters and digits, the
  display name non-empty and free of the closing bracket.
  \<open>canonical_at text k uid\<close>: such a token with id \<open>uid\<close> starts at position \<open>k\<close>.
\<close>

definition canonical_mention :: "string \<Rightarrow> string \<Rightarrow> bool" where
  "canonical_mention tok uid =
     (uid \<noteq> [] \<and> list_all is_id_char uid
      \<and> (tok = ''<@'' @ uid @ ''>''
         \<or> (\<exists>name. name \<noteq> [] \<and> list_all (\<lambda>c. c \<noteq> CHR ''>'') name
                   \<and> tok = ''<@'' @ uid @ ''|'' @ name @ ''>'')))"

definition canonical_at :: "string \<Rightarrow> nat \<Rightarrow> string \<Rightarrow> bool" where
  "canonical_at text k uid =
     (\<exists>tok rest. drop k text = tok @ rest \<and> canonical_mention tok uid)"

text \<open>
  A loose mention is the sigil \<^verbatim>\<open>@\<close> followed by an identifier code: \<^verbatim>\<open>U\<close> or
  \<^verbatim>\<open>W\<close>, then at least one capital letter or digit. The identifier is the whole code:
  it ends where the text ends or continues with another character.
\<close>

definition loose_at :: "string \<Rightarrow> nat \<Rightarrow> string \<Rightarrow> bool" where
  "loose_at text k uid =
     (\<exists>c run rest. drop k text = CHR ''@'' # c # run @ rest
         \<and> (c = CHR ''U'' \<or> c = CHR ''W'')
         \<and> run \<noteq> [] \<and> list_all is_id_char run
         \<and> takeWhile is_id_char rest = []
         \<and> uid = c # run)"

section \<open>Sample states and clients\<close>

text \<open>Concrete inputs on which the handlers are run below.\<close>

definition empty_state :: state where
  "empty_state = \<lparr>matches = Map.empty, results = [], trace = []\<rparr>"

definition match1 :: match_row where
  "match1 = \<lparr>m_id = ''match_U2_1700000000'', m_challenger = ''U2'', m_opponent = ''U1'',
             m_channel = ''C1'', m_created_at = 1700000000\<rparr>"

definition one_match_state :: state where
  "one_match_state =
     \<lparr>matches = [''match_U2_1700000000'' \<mapsto> match1], results = [], trace = []\<rparr>"

definition self_match :: match_row where
  "self_match = \<lparr>m_id = ''match_U2_1700000000'', m_challenger = ''U2'', m_opponent = ''U2'',
                 m_channel = ''C1'', m_created_at = 1700000000\<rparr>"

definition self_match_state :: state where
  "self_match_state =
     \<lparr>matches = [''match_U2_1700000000'' \<mapsto> self_match], results = [], trace = []\<rparr>"

definition ok_client :: client where
  "ok_client c = (case c of ConversationsOpen u \<Rightarrow> ApiOk (''D'' @ u) | _ \<Rightarrow> ApiOk [])"

definition private_channel_client :: client where
  "private_channel_client c =
     (case c of
        ConversationsJoin ch \<Rightarrow> ApiFail (Some ''method_not_supported_for_channel_type'')
      | ChatPostMessage ch txt bs \<Rightarrow>
          if ch = ''C1'' then ApiFail (Some ''not_in_channel'') else ApiOk []
      | ConversationsOpen u \<Rightarrow> ApiOk (''D'' @ u)
      | _ \<Rightarrow> ApiOk [])"

definition score_21_15 :: "string \<Rightarrow> score_body" where
  "score_21_15 u =
     \<lparr>s_challenger_score_raw = ''21'', s_opponent_score_raw = ''15'',
      s_private_metadata = ''match_U2_1700000000'', s_user_id = u\<rparr>"

definition score_body_of :: "string \<Rightarrow> string \<Rightarrow> string \<Rightarrow> score_body" where
  "score_body_of challenger_raw opponent_raw u =
     \<lparr>s_challenger_score_raw = challenger_raw, s_opponent_score_raw = opponent_raw,
      s_private_metadata = ''match_U2_1700000000'', s_user_id = u\<rparr>"

definition challenge_by_U2 :: "string \<Rightarrow> command" where
  "challenge_by_U2 txt =
     \<lparr>c_text = txt, c_user_id = ''U2'', c_channel_id = ''C1'', c_trigger_id = ''T1''\<rparr>"

section \<open>Evaluation and unfolding lemmas\<close>

lemmas eval_defs =
  py_int_def strip_def isspace_def int_space_def isdigit_def digit_val_def str_int_def
  str_nat.simps digit_char_def str_opt_def integer_fits_def

lemma accept_match_eq:
  "accept_match body s =
     (Returned,
      s\<lparr>trace := trace s @
          [Ack, Db (SelectMatch (a_value body)),
           (case matches s (a_value body) of
              None \<Rightarrow> Respond None ''Match not found or expired.'' []
            | Some m \<Rightarrow>
                Respond None ''Match accepted!''
                  [Section (''Match accepted! <@'' @ m_challenger m @ ''> vs <@''
                            @ m_opponent m @ ''>. Go play''),
                   Actions [Button ''Submit Score'' None ''open_score_modal'' (a_value body)]])]\<rparr>)"
  by (simp add: accept_match_def get_match_def emit_def Let_def split: option.split)

lemma score_rejected_eq:
  assumes "py_int (strip (s_challenger_score_raw body)) = None
           \<or> py_int (strip (s_opponent_score_raw body)) = None"
  shows "handle_score_submission db client body now s =
           (Returned, s\<lparr>trace := trace s @ [Ack, score_errors]\<rparr>)"
  using assms
  by (auto simp: handle_score_submission_def emit_def Let_def split: option.split)

lemma score_absent_eq:
  assumes "py_int (strip (s_challenger_score_raw body)) = Some a"
      and "py_int (strip (s_opponent_score_raw body)) = Some b"
      and "matches s (s_private_metadata body) = None"
  shows "handle_score_submission db client body now s =
           call_last client
             (ChatPostMessage (s_user_id body) ''Score recorded (match context lost).'' [])
             (s\<lparr>trace := trace s @ [Ack, Db (SelectMatch (s_private_metadata body))]\<rparr>)"
  using assms
  by (simp add: handle_score_submission_def get_match_def emit_def Let_def)

lemma score_present_eq:
  assumes "py_int (strip (s_challenger_score_raw body)) = Some a"
      and "py_int (strip (s_opponent_score_raw body)) = Some b"
      and "matches s (s_private_metadata body) = Some m"
  shows "handle_score_submission db client body now s =
           (case score_try db client body now (s_private_metadata body) m a b
                   (s\<lparr>trace := trace s @ [Ack, Db (SelectMatch (s_private_metadata body))]\<rparr>) of
              (Raised (SlackApiError err), s3) \<Rightarrow>
                 (Returned, score_post_failed client body (s_private_metadata body) a b err s3)
            | (st, s3) \<Rightarrow> (st, s3))"
  using assms
  by (simp add: handle_score_submission_def get_match_def emit_def Let_def)

lemma results_score_post_failed [simp]:
  "results (score_post_failed client body mid a b err s) = results s"
  by (simp add: score_post_failed_def call_def emit_def split: api_outcome.split)

lemma matches_score_post_failed [simp]:
  "matches (score_post_failed client body mid a b err s) = matches s"
  by (simp add: score_post_failed_def call_def emit_def split: api_outcome.split)

lemma results_score_try:
  assumes "integer_fits db a" and "integer_fits db b" and "integer_fits db now"
  shows "results (snd (score_try db client body now mid m a b s)) =
     results s @ [\<lparr>r_match_id = mid, r_challenger = m_challenger m, r_opponent = m_opponent m,
                   r_challenger_score = a, r_opponent_score = b, r_winner = winner_of m a b,
                   r_channel = m_channel m, r_submitted_by = s_user_id body,
                   r_submitted_at = now\<rparr>]"
  using assms
  by (simp add: score_try_def call_def emit_def record_result_def delete_match_def Let_def
           split: api_outcome.split)

lemma score_try_overflow:
  assumes "\<not> (integer_fits db a \<and> integer_fits db b \<and> integer_fits db now)"
  shows "fst (score_try db client body now mid m a b s) = Raised StorageError
         \<and> results (snd (score_try db client body now mid m a b s)) = results s
         \<and> matches (snd (score_try db client body now mid m a b s)) = matches s"
  using assms
  by (auto simp: score_try_def call_def emit_def record_result_def Let_def)

lemma results_score_present:
  assumes "py_int (strip (s_challenger_score_raw body)) = Some a"
      and "py_int (strip (s_opponent_score_raw body)) = Some b"
      and "matches s (s_private_metadata body) = Some m"
      and "integer_fits db a" and "integer_fits db b" and "integer_fits db now"
  shows "results (snd (handle_score_submission db client body now s)) =
     results s @ [\<lparr>r_match_id = s_private_metadata body, r_challenger = m_challenger m,
                   r_opponent = m_opponent m,
                   r_challenger_score = a, r_opponent_score = b, r_winner = winner_of m a b,
                   r_channel = m_channel m, r_submitted_by = s_user_id body,
                   r_submitted_at = now\<rparr>]"
proof -
  let ?s1 = "s\<lparr>trace := trace s @ [Ack, Db (SelectMatch (s_private_metadata body))]\<rparr>"
  obtain st s3
    where t: "score_try db client body now (s_private_metadata body) m a b ?s1 = (st, s3)"
    by (cases "score_try db client body now (s_private_metadata body) m a b ?s1")
  have r: "results s3 = results s @ [\<lparr>r_match_id = s_private_metadata body, r_challenger = m_challenger m,
                   r_opponent = m_opponent m,
                   r_challenger_score = a, r_opponent_score = b, r_winner = winner_of m a b,
                   r_channel = m_channel m, r_submitted_by = s_user_id body,
                   r_submitted_at = now\<rparr>]"
    using results_score_try [OF assms(4) assms(5) assms(6),
        of client body "s_private_metadata body" m ?s1] t
    by simp
  show ?thesis
    unfolding score_present_eq [OF assms(1) assms(2) assms(3)] t
    using r by (simp split: status.split py_exception.split)
qed

lemma score_overflow_present:
  assumes "py_int (strip (s_challenger_score_raw body)) = Some a"
      and "py_int (strip (s_opponent_score_raw body)) = Some b"
      and "matches s (s_private_metadata body) = Some m"
      and "\<not> (integer_fits db a \<and> integer_fits db b \<and> integer_fits db now)"
  shows "fst (handle_score_submission db client body now s) = Raised StorageError
         \<and> results (snd (handle_score_submission db client body now s)) = results s
         \<and> matches (snd (handle_score_submission db client body now s)) = matches s"
proof -
  let ?s1 = "s\<lparr>trace := trace s @ [Ack, Db (SelectMatch (s_private_metadata body))]\<rparr>"
  obtain st s3
    where t: "score_try db client body now (s_private_metadata body) m a b ?s1 = (st, s3)"
    by (cases "score_try db client body now (s_private_metadata body) m a b ?s1")
  have "st = Raised StorageError \<and> results s3 = results s \<and> matches s3 = matches s"
    using score_try_overflow [OF assms(4), of client body "s_private_metadata body" m ?s1] t
    by simp
  then show ?thesis
    unfolding score_present_eq [OF assms(1) assms(2) assms(3)] t
    by simp
qed

text \<open>A score padded with no-break spaces is stripped and parsed like any other.\<close>

lemma py_int_no_break_space: "py_int (strip ([CHR 0xA0] @ ''21'' @ [CHR 0x85])) = Some 21"
  by (simp add: eval_defs)

section \<open>Score submission: rejected and stale submissions\<close>

text \<open>
  Claim C4. When either raw score, stripped, is not an integer for \<open>int()\<close>, the
  handler acknowledges with a field error on the challenger's score block and returns.
  The state it leaves differs from the state it found only by the two acknowledgements
  in the trace: the tables are unchanged, and no database statement and no API call was
  issued. The raw scores range over the strings of code points below 256, on which
  \<open>strip\<close> and \<open>py_int\<close> are \<open>str.strip()\<close> and \<open>int()\<close>.
\<close>

theorem unparsable_score_rejected:
  assumes "py_int (strip (s_challenger_score_raw body)) = None
           \<or> py_int (strip (s_opponent_score_raw body)) = None"
  shows "handle_score_submission db client body now s =
           (Returned,
            s\<lparr>trace := trace s @
                [Ack, AckErrors [(''score_block_challenger'',
                                  ''Scores must be whole numbers.'')]]\<rparr>)"
  using score_rejected_eq [OF assms] by (simp add: score_errors_def)

theorem unparsable_score_rejected_witness:
  "handle_score_submission Sqlite ok_client
     \<lparr>s_challenger_score_raw = ''abc'', s_opponent_score_raw = ''15'',
      s_private_metadata = ''match_U2_1700000000'', s_user_id = ''U2''\<rparr> 1700000100
     one_match_state =
   (Returned,
    \<lparr>matches = [''match_U2_1700000000'' \<mapsto> match1], results = [],
     trace = [Ack, AckErrors [(''score_block_challenger'',
                               ''Scores must be whole numbers.'')]]\<rparr>)"
proof -
  have "py_int (strip ''abc'') = None"
    by (simp add: eval_defs)
  then show ?thesis
    using unparsable_score_rejected [of "\<lparr>s_challenger_score_raw = ''abc'', s_opponent_score_raw = ''15'',
      s_private_metadata = ''match_U2_1700000000'', s_user_id = ''U2''\<rparr>" Sqlite ok_client 1700000100 one_match_state]
    by (simp add: one_match_state_def)
qed

text \<open>
  Claim C9. When both scores parse and no match has the submitted id, the handler reads
  the table once, sends the context-lost message to the submitting user and does
  nothing else: both tables are as before and no result is inserted.
\<close>

theorem score_for_absent_match:
  assumes "py_int (strip (s_challenger_score_raw body)) = Some a"
      and "py_int (strip (s_opponent_score_raw body)) = Some b"
      and "matches s (s_private_metadata body) = None"
  shows "snd (handle_score_submission db client body now s) =
           s\<lparr>trace := trace s @
               [Ack, Db (SelectMatch (s_private_metadata body)),
                Api (ChatPostMessage (s_user_id body)
                       ''Score recorded (match context lost).'' [])]\<rparr>"
  unfolding score_absent_eq [OF assms]
  by (simp add: call_last_def call_def emit_def split: api_outcome.split)

theorem score_for_absent_match_witness:
  "snd (handle_score_submission Sqlite ok_client (score_21_15 ''U2'') 1700000100 empty_state) =
     \<lparr>matches = Map.empty, results = [],
      trace = [Ack, Db (SelectMatch ''match_U2_1700000000''),
               Api (ChatPostMessage ''U2'' ''Score recorded (match context lost).'' [])]\<rparr>"
proof -
  have a: "py_int (strip (s_challenger_score_raw (score_21_15 ''U2''))) = Some 21"
    by (simp add: score_21_15_def eval_defs)
  have b: "py_int (strip (s_opponent_score_raw (score_21_15 ''U2''))) = Some 15"
    by (simp add: score_21_15_def eval_defs)
  have c: "matches empty_state (s_private_metadata (score_21_15 ''U2'')) = None"
    by (simp add: empty_state_def)
  show ?thesis
    using score_for_absent_match [OF a b c, of Sqlite ok_client 1700000100]
    by (simp add: empty_state_def score_21_15_def)
qed


section \<open>Accept\<close>

text \<open>
  Claim C5. Accept returns normally and writes to neither table. When no match has the
  id, its one response is the not-found notice; when the match is there, its one
  response is the acceptance message with a Submit Score button whose value is the same
  match id. The only database statement in the trace is the read.
\<close>

theorem accept_match_never_writes:
  "fst (accept_match body s) = Returned
   \<and> matches (snd (accept_match body s)) = matches s
   \<and> results (snd (accept_match body s)) = results s
   \<and> (matches s (a_value body) = None \<longrightarrow>
        trace (snd (accept_match body s)) =
          trace s @ [Ack, Db (SelectMatch (a_value body)),
                     Respond None ''Match not found or expired.'' []])
   \<and> (\<forall>m. matches s (a_value body) = Some m \<longrightarrow>
        trace (snd (accept_match body s)) =
          trace s @ [Ack, Db (SelectMatch (a_value body)),
                     Respond None ''Match accepted!''
                       [Section (''Match accepted! <@'' @ m_challenger m @ ''> vs <@''
                                 @ m_opponent m @ ''>. Go play''),
                        Actions [Button ''Submit Score'' None ''open_score_modal''
                                   (a_value body)]]])"
  by (simp add: accept_match_eq)


theorem accept_match_never_writes_witness:
  "snd (accept_match \<lparr>a_value = ''match_U2_1700000000'', a_user_id = ''U1'', a_trigger_id = ''T1''\<rparr>
         empty_state) =
     \<lparr>matches = Map.empty, results = [],
      trace = [Ack, Db (SelectMatch ''match_U2_1700000000''),
               Respond None ''Match not found or expired.'' []]\<rparr>
   \<and> snd (accept_match \<lparr>a_value = ''match_U2_1700000000'', a_user_id = ''U1'', a_trigger_id = ''T1''\<rparr>
         one_match_state) =
     \<lparr>matches = [''match_U2_1700000000'' \<mapsto> match1], results = [],
      trace = [Ack, Db (SelectMatch ''match_U2_1700000000''),
               Respond None ''Match accepted!''
                 [Section ''Match accepted! <@U2> vs <@U1>. Go play'',
                  Actions [Button ''Submit Score'' None ''open_score_modal''
                             ''match_U2_1700000000'']]]\<rparr>"
proof -
  let ?b = "\<lparr>a_value = ''match_U2_1700000000'', a_user_id = ''U1'', a_trigger_id = ''T1''\<rparr>"
  have absent: "matches empty_state (a_value ?b) = None"
    by (simp add: empty_state_def)
  have present: "matches one_match_state (a_value ?b) = Some match1"
    by (simp add: one_match_state_def)
  have e: "snd (accept_match ?b empty_state) =
             \<lparr>matches = matches (snd (accept_match ?b empty_state)),
              results = results (snd (accept_match ?b empty_state)),
              trace = trace (snd (accept_match ?b empty_state))\<rparr>"
    by simp
  have o: "snd (accept_match ?b one_match_state) =
             \<lparr>matches = matches (snd (accept_match ?b one_match_state)),
              results = results (snd (accept_match ?b one_match_state)),
              trace = trace (snd (accept_match ?b one_match_state))\<rparr>"
    by simp
  have "snd (accept_match ?b empty_state) =
     \<lparr>matches = Map.empty, results = [],
      trace = [Ack, Db (SelectMatch ''match_U2_1700000000''),
               Respond None ''Match not found or expired.'' []]\<rparr>"
    using accept_match_never_writes [of ?b empty_state] absent
    by (subst e) (simp add: empty_state_def)
  moreover have "snd (accept_match ?b one_match_state) =
     \<lparr>matches = [''match_U2_1700000000'' \<mapsto> match1], results = [],
      trace = [Ack, Db (SelectMatch ''match_U2_1700000000''),
               Respond None ''Match accepted!''
                 [Section ''Match accepted! <@U2> vs <@U1>. Go play'',
                  Actions [Button ''Submit Score'' None ''open_score_modal''
                             ''match_U2_1700000000'']]]\<rparr>"
    using accept_match_never_writes [of ?b one_match_state] present
    by (subst o) (simp add: one_match_state_def match1_def)
  ultimately show ?thesis by simp
qed

section \<open>Who may decline and submit\<close>

text \<open>
  Claim C10, as stated, fails on a score that parses but does not fit the integer column:
  U9, who is no participant of the match, submits 9223372036854775808 and 15 on the
  default SQLite database. The insert raises, nothing is caught, and no result is
  appended.
\<close>

theorem oversized_score_not_appended:
  "matches one_match_state ''match_U2_1700000000'' = Some match1
   \<and> py_int (strip ''9223372036854775808'') = Some 9223372036854775808
   \<and> py_int (strip ''15'') = Some 15
   \<and> fst (handle_score_submission Sqlite ok_client
              (score_body_of ''9223372036854775808'' ''15'' ''U9'') 1700000100
              one_match_state) = Raised StorageError
   \<and> results (snd (handle_score_submission Sqlite ok_client
                       (score_body_of ''9223372036854775808'' ''15'' ''U9'') 1700000100
                       one_match_state)) = []"
proof -
  let ?body = "score_body_of ''9223372036854775808'' ''15'' ''U9''"
  have m: "matches one_match_state (s_private_metadata ?body) = Some match1"
    by (simp add: one_match_state_def score_body_of_def)
  have a: "py_int (strip (s_challenger_score_raw ?body)) = Some 9223372036854775808"
    by (simp add: score_body_of_def eval_defs)
  have b: "py_int (strip (s_opponent_score_raw ?body)) = Some 15"
    by (simp add: score_body_of_def eval_defs)
  have o: "\<not> (integer_fits Sqlite 9223372036854775808 \<and> integer_fits Sqlite 15
               \<and> integer_fits Sqlite 1700000100)"
    by (simp add: integer_fits_def)
  show ?thesis
    using m a b score_overflow_present [OF a b m o, of ok_client]
    by (simp add: score_body_of_def one_match_state_def)
qed

text \<open>
  Claim C10, amended. For an existing match and any user \<open>u\<close>, with no condition
  relating \<open>u\<close> to the match: a Decline clicked by \<open>u\<close> removes the row; and a score
  submission by \<open>u\<close> with parseable scores, when the scores and the clock fit the integer
  columns of the database, appends a result whose \<open>submitted_by\<close> is \<open>u\<close>, whatever
  the Slack client answers.
\<close>

theorem any_user_may_decline_and_score:
  assumes "matches s match_id = Some m"
      and "py_int (strip challenger_raw) = Some a"
      and "py_int (strip opponent_raw) = Some b"
      and "integer_fits db a" and "integer_fits db b" and "integer_fits db now"
  shows "matches (snd (decline_match
                         \<lparr>a_value = match_id, a_user_id = u, a_trigger_id = t\<rparr> s)) match_id
           = None
         \<and> results (snd (handle_score_submission db client
                            \<lparr>s_challenger_score_raw = challenger_raw,
                             s_opponent_score_raw = opponent_raw,
                             s_private_metadata = match_id, s_user_id = u\<rparr> now s))
           = results s @
               [\<lparr>r_match_id = match_id, r_challenger = m_challenger m,
                 r_opponent = m_opponent m, r_challenger_score = a, r_opponent_score = b,
                 r_winner = winner_of m a b, r_channel = m_channel m, r_submitted_by = u,
                 r_submitted_at = now\<rparr>]"
proof -
  let ?body = "\<lparr>s_challenger_score_raw = challenger_raw, s_opponent_score_raw = opponent_raw,
                 s_private_metadata = match_id, s_user_id = u\<rparr>"
  have "matches (snd (decline_match \<lparr>a_value = match_id, a_user_id = u, a_trigger_id = t\<rparr> s))
          match_id = None"
    by (simp add: decline_match_def delete_match_def emit_def Let_def)
  moreover have "results (snd (handle_score_submission db client ?body now s)) =
      results s @
               [\<lparr>r_match_id = match_id, r_challenger = m_challenger m,
                 r_opponent = m_opponent m, r_challenger_score = a, r_opponent_score = b,
                 r_winner = winner_of m a b, r_channel = m_channel m, r_submitted_by = u,
                 r_submitted_at = now\<rparr>]"
    using results_score_present [of ?body a b s m db now client] assms by simp
  ultimately show ?thesis by simp
qed

theorem any_user_may_decline_and_score_witness:
  "matches (snd (decline_match
                   \<lparr>a_value = ''match_U2_1700000000'', a_user_id = ''U9'', a_trigger_id = ''T1''\<rparr>
                   one_match_state)) ''match_U2_1700000000'' = None
   \<and> results (snd (handle_score_submission Sqlite private_channel_client (score_21_15 ''U9'')
                     1700000100 one_match_state))
       = [\<lparr>r_match_id = ''match_U2_1700000000'', r_challenger = ''U2'', r_opponent = ''U1'',
           r_challenger_score = 21, r_opponent_score = 15, r_winner = Some ''U2'',
           r_channel = ''C1'', r_submitted_by = ''U9'', r_submitted_at = 1700000100\<rparr>]
   \<and> ''U9'' \<noteq> m_challenger match1 \<and> ''U9'' \<noteq> m_opponent match1"
proof -
  have m: "matches one_match_state ''match_U2_1700000000'' = Some match1"
    by (simp add: one_match_state_def)
  have a: "py_int (strip ''21'') = Some 21"
    by (simp add: eval_defs)
  have b: "py_int (strip ''15'') = Some 15"
    by (simp add: eval_defs)
  have fa: "integer_fits Sqlite 21" and fb: "integer_fits Sqlite 15"
    and fn: "integer_fits Sqlite 1700000100"
    by (simp_all add: integer_fits_def)
  show ?thesis
    using any_user_may_decline_and_score [OF m a b fa fb fn, of "''U9''" "''T1''"
        private_channel_client]
    by (simp add: score_21_15_def one_match_state_def match1_def winner_of_def)
qed

section \<open>The winner of a submitted score\<close>

text \<open>
  Claim C3, as the spec states it, fails in two places. On a match a user issued against
  themselves (nothing in the program rejects one) the challenger and the opponent are
  the same user, so with scores 1 and 2 the winner is the opponent, who is the
  challenger, although the challenger's score is not the greater one. And not every
  integer is accepted: the score 100000000000000000000000000000 parses, but the insert
  into the integer column raises and no result is stored.
\<close>

theorem self_challenge_winner_counterexample:
  "matches self_match_state ''match_U2_1700000000'' = Some self_match
   \<and> py_int (strip ''1'') = Some 1 \<and> py_int (strip ''2'') = Some 2
   \<and> map r_winner
         (results (snd (handle_score_submission Sqlite ok_client
                          (score_body_of ''1'' ''2'' ''U2'') 1700000100 self_match_state)))
       = [Some (m_challenger self_match)]
   \<and> \<not> (1::int) > 2
   \<and> matches one_match_state ''match_U2_1700000000'' = Some match1
   \<and> py_int (strip ''100000000000000000000000000000'')
       = Some 100000000000000000000000000000
   \<and> fst (handle_score_submission Sqlite ok_client
              (score_body_of ''-3'' ''100000000000000000000000000000'' ''U2'') 1700000100
              one_match_state) = Raised StorageError
   \<and> results (snd (handle_score_submission Sqlite ok_client
                       (score_body_of ''-3'' ''100000000000000000000000000000'' ''U2'')
                       1700000100 one_match_state)) = []"
proof -
  let ?self = "score_body_of ''1'' ''2'' ''U2''"
  have m: "matches self_match_state (s_private_metadata ?self) = Some self_match"
    by (simp add: self_match_state_def score_body_of_def)
  have a: "py_int (strip (s_challenger_score_raw ?self)) = Some 1"
    by (simp add: score_body_of_def eval_defs)
  have b: "py_int (strip (s_opponent_score_raw ?self)) = Some 2"
    by (simp add: score_body_of_def eval_defs)
  have f: "integer_fits Sqlite 1" "integer_fits Sqlite 2" "integer_fits Sqlite 1700000100"
    by (simp_all add: integer_fits_def)
  have self: "map r_winner
         (results (snd (handle_score_submission Sqlite ok_client ?self 1700000100
                          self_match_state)))
       = [Some (m_challenger self_match)]"
    using results_score_present [OF a b m f, of ok_client]
    by (simp add: score_body_of_def self_match_state_def self_match_def winner_of_def)
  let ?big = "score_body_of ''-3'' ''100000000000000000000000000000'' ''U2''"
  have m2: "matches one_match_state (s_private_metadata ?big) = Some match1"
    by (simp add: one_match_state_def score_body_of_def)
  have a2: "py_int (strip (s_challenger_score_raw ?big)) = Some (- 3)"
    by (simp add: score_body_of_def eval_defs)
  have b2: "py_int (strip (s_opponent_score_raw ?big)) = Some 100000000000000000000000000000"
    by (simp add: score_body_of_def eval_defs)
  have o: "\<not> (integer_fits Sqlite (- 3) \<and> integer_fits Sqlite 100000000000000000000000000000
               \<and> integer_fits Sqlite 1700000100)"
    by (simp add: integer_fits_def)
  have big: "fst (handle_score_submission Sqlite ok_client ?big 1700000100 one_match_state)
               = Raised StorageError
             \<and> results (snd (handle_score_submission Sqlite ok_client ?big 1700000100
                                one_match_state)) = []"
    using score_overflow_present [OF a2 b2 m2 o, of ok_client]
    by (simp add: one_match_state_def)
  show ?thesis
    using m a b self m2 b2 big by (simp add: score_body_of_def)
qed

text \<open>
  Claim C3, amended. For a submission on an existing match with scores that parse to
  \<open>a\<close> and \<open>b\<close>: when \<open>a\<close>, \<open>b\<close> and the clock fit the integer columns of the
  database, exactly one result is appended, and it stores \<open>a\<close> and \<open>b\<close> as they are
  (negative or not; the handler has no bounds check of its own). Its winner is the
  challenger when \<open>a > b\<close>, the opponent when \<open>b > a\<close>, and none exactly when
  \<open>a = b\<close>. When challenger and opponent are different users, the winner is the
  challenger exactly when \<open>a > b\<close> and the opponent exactly when \<open>b > a\<close>. When one of
  them does not fit, the insert raises, the handler does not catch it, and no result is
  stored.
\<close>

theorem winner_by_strict_comparison:
  assumes "matches s (s_private_metadata body) = Some m"
      and "py_int (strip (s_challenger_score_raw body)) = Some a"
      and "py_int (strip (s_opponent_score_raw body)) = Some b"
  shows "(integer_fits db a \<and> integer_fits db b \<and> integer_fits db now \<longrightarrow>
           (\<exists>r. results (snd (handle_score_submission db client body now s)) = results s @ [r]
               \<and> r_challenger_score r = a \<and> r_opponent_score r = b
               \<and> (a > b \<longrightarrow> r_winner r = Some (m_challenger m))
               \<and> (b > a \<longrightarrow> r_winner r = Some (m_opponent m))
               \<and> (r_winner r = None \<longleftrightarrow> a = b)
               \<and> (m_challenger m \<noteq> m_opponent m \<longrightarrow>
                    (r_winner r = Some (m_challenger m) \<longleftrightarrow> a > b)
                    \<and> (r_winner r = Some (m_opponent m) \<longleftrightarrow> b > a))))
         \<and> (\<not> (integer_fits db a \<and> integer_fits db b \<and> integer_fits db now) \<longrightarrow>
              fst (handle_score_submission db client body now s) = Raised StorageError
              \<and> results (snd (handle_score_submission db client body now s)) = results s)"
proof (intro conjI impI)
  assume f: "integer_fits db a \<and> integer_fits db b \<and> integer_fits db now"
  show "\<exists>r. results (snd (handle_score_submission db client body now s)) = results s @ [r]
               \<and> r_challenger_score r = a \<and> r_opponent_score r = b
               \<and> (a > b \<longrightarrow> r_winner r = Some (m_challenger m))
               \<and> (b > a \<longrightarrow> r_winner r = Some (m_opponent m))
               \<and> (r_winner r = None \<longleftrightarrow> a = b)
               \<and> (m_challenger m \<noteq> m_opponent m \<longrightarrow>
                    (r_winner r = Some (m_challenger m) \<longleftrightarrow> a > b)
                    \<and> (r_winner r = Some (m_opponent m) \<longleftrightarrow> b > a))"
    using results_score_present [OF assms(2) assms(3) assms(1), of db now client] f
    by (auto simp: winner_of_def)
next
  assume o: "\<not> (integer_fits db a \<and> integer_fits db b \<and> integer_fits db now)"
  show "fst (handle_score_submission db client body now s) = Raised StorageError"
    using score_overflow_present [OF assms(2) assms(3) assms(1) o] by simp
  show "results (snd (handle_score_submission db client body now s)) = results s"
    using score_overflow_present [OF assms(2) assms(3) assms(1) o] by simp
qed

theorem winner_by_strict_comparison_witness:
  "(\<exists>r. results (snd (handle_score_submission Postgres ok_client
                         (score_body_of ''-3'' ''2147483647'' ''U2'')
                         1700000100 one_match_state)) = [r]
       \<and> r_challenger_score r = - 3
       \<and> r_opponent_score r = 2147483647
       \<and> r_winner r = Some ''U1''
       \<and> r_winner r \<noteq> Some ''U2'')
   \<and> fst (handle_score_submission Postgres ok_client
             (score_body_of ''-3'' ''2147483648'' ''U2'') 1700000100 one_match_state)
       = Raised StorageError
   \<and> results (snd (handle_score_submission Postgres ok_client
                      (score_body_of ''-3'' ''2147483648'' ''U2'') 1700000100
                      one_match_state)) = []"
proof -
  let ?body = "score_body_of ''-3'' ''2147483647'' ''U2''"
  have m: "matches one_match_state (s_private_metadata ?body) = Some match1"
    by (simp add: one_match_state_def score_body_of_def)
  have a: "py_int (strip (s_challenger_score_raw ?body)) = Some (- 3)"
    by (simp add: score_body_of_def eval_defs)
  have b: "py_int (strip (s_opponent_score_raw ?body)) = Some 2147483647"
    by (simp add: score_body_of_def eval_defs)
  have f: "integer_fits Postgres (- 3) \<and> integer_fits Postgres 2147483647
           \<and> integer_fits Postgres 1700000100"
    by (simp add: integer_fits_def)
  have fits: "\<exists>r. results (snd (handle_score_submission Postgres ok_client ?body
                                   1700000100 one_match_state)) = [r]
       \<and> r_challenger_score r = - 3
       \<and> r_opponent_score r = 2147483647
       \<and> r_winner r = Some ''U1''
       \<and> r_winner r \<noteq> Some ''U2''"
    using winner_by_strict_comparison [OF m a b, of Postgres 1700000100 ok_client] f
    by (auto simp: one_match_state_def match1_def)
  let ?over = "score_body_of ''-3'' ''2147483648'' ''U2''"
  have m2: "matches one_match_state (s_private_metadata ?over) = Some match1"
    by (simp add: one_match_state_def score_body_of_def)
  have a2: "py_int (strip (s_challenger_score_raw ?over)) = Some (- 3)"
    by (simp add: score_body_of_def eval_defs)
  have b2: "py_int (strip (s_opponent_score_raw ?over)) = Some 2147483648"
    by (simp add: score_body_of_def eval_defs)
  have o: "\<not> (integer_fits Postgres (- 3) \<and> integer_fits Postgres 2147483648
               \<and> integer_fits Postgres 1700000100)"
    by (simp add: integer_fits_def)
  have over: "fst (handle_score_submission Postgres ok_client ?over 1700000100
                     one_match_state) = Raised StorageError
              \<and> results (snd (handle_score_submission Postgres ok_client ?over 1700000100
                                 one_match_state)) = []"
    using winner_by_strict_comparison [OF m2 a2 b2, of Postgres 1700000100 ok_client] o
    by (simp add: one_match_state_def)
  show ?thesis
    using fits over by blast
qed

section \<open>A result message that cannot be delivered\<close>

text \<open>
  The two outcomes of posting the result. When the post is delivered, the handler reads
  the match, inserts the result, posts, and only then deletes the match row: the insert
  stands before the delete in the trace. When the post raises, the handler still returns
  normally, but the match table is as it was and the trace gains no delete statement.
  A second Decline changes nothing, and a second submission after a delivered one
  appends nothing.
\<close>

lemma score_delivered:
  assumes "py_int (strip (s_challenger_score_raw body)) = Some a"
      and "py_int (strip (s_opponent_score_raw body)) = Some b"
      and "matches s (s_private_metadata body) = Some m"
      and "integer_fits db a \<and> integer_fits db b \<and> integer_fits db now"
      and "client (ChatPostMessage (m_channel m) (result_text m a b (winner_of m a b)) [])
             = ApiOk x"
  shows "handle_score_submission db client body now s =
           (Returned,
            s\<lparr>matches := (matches s)(s_private_metadata body := None),
              results := results s @
                [\<lparr>r_match_id = s_private_metadata body, r_challenger = m_challenger m,
                  r_opponent = m_opponent m, r_challenger_score = a, r_opponent_score = b,
                  r_winner = winner_of m a b, r_channel = m_channel m,
                  r_submitted_by = s_user_id body, r_submitted_at = now\<rparr>],
              trace := trace s @
                [Ack, Db (SelectMatch (s_private_metadata body)),
                 Api (ConversationsJoin (m_channel m)),
                 Db (InsertResult
                       \<lparr>r_match_id = s_private_metadata body, r_challenger = m_challenger m,
                        r_opponent = m_opponent m, r_challenger_score = a,
                        r_opponent_score = b, r_winner = winner_of m a b,
                        r_channel = m_channel m, r_submitted_by = s_user_id body,
                        r_submitted_at = now\<rparr>),
                 Api (ChatPostMessage (m_channel m) (result_text m a b (winner_of m a b)) []),
                 Db (DeleteMatch (s_private_metadata body))]\<rparr>)"
  unfolding score_present_eq [OF assms(1) assms(2) assms(3)]
  using assms(4) assms(5)
  by (simp add: score_try_def call_def emit_def record_result_def delete_match_def Let_def)

lemma score_not_delivered:
  assumes "py_int (strip (s_challenger_score_raw body)) = Some a"
      and "py_int (strip (s_opponent_score_raw body)) = Some b"
      and "matches s (s_private_metadata body) = Some m"
      and "integer_fits db a \<and> integer_fits db b \<and> integer_fits db now"
      and "client (ChatPostMessage (m_channel m) (result_text m a b (winner_of m a b)) [])
             = ApiFail err"
  shows "fst (handle_score_submission db client body now s) = Returned
         \<and> matches (snd (handle_score_submission db client body now s)) = matches s
         \<and> Db (DeleteMatch (s_private_metadata body))
             \<notin> set (trace (snd (handle_score_submission db client body now s)))
                 - set (trace s)"
  unfolding score_present_eq [OF assms(1) assms(2) assms(3)]
  using assms(4) assms(5)
  by (auto simp: score_try_def score_post_failed_def call_def emit_def record_result_def
        Let_def split: api_outcome.split)

lemma decline_match_twice:
  "fst (decline_match body (snd (decline_match body s))) = Returned
   \<and> matches (snd (decline_match body (snd (decline_match body s))))
       = matches (snd (decline_match body s))
   \<and> results (snd (decline_match body (snd (decline_match body s)))) = results s"
  by (simp add: decline_match_def delete_match_def emit_def Let_def)

lemma resubmission_after_delivery:
  assumes "py_int (strip (s_challenger_score_raw body)) = Some a"
      and "py_int (strip (s_opponent_score_raw body)) = Some b"
      and "matches s (s_private_metadata body) = Some m"
      and "integer_fits db a \<and> integer_fits db b \<and> integer_fits db now"
      and "client (ChatPostMessage (m_channel m) (result_text m a b (winner_of m a b)) [])
             = ApiOk x"
  shows "results (snd (handle_score_submission db2 client2 body now2
                         (snd (handle_score_submission db client body now s))))
         = results (snd (handle_score_submission db client body now s))"
proof -
  let ?s1 = "snd (handle_score_submission db client body now s)"
  have gone: "matches ?s1 (s_private_metadata body) = None"
    using score_delivered [of body a b s m db now client x] assms by simp
  show ?thesis
    unfolding score_absent_eq [OF assms(1) assms(2) gone]
    by (simp add: call_last_def call_def emit_def split: api_outcome.split)
qed

text \<open>
  Claim C1 on a concrete run. The match between U2 and U1 is in the table, the bot is not
  a member of channel C1 (joining and posting there raise \<open>SlackApiError\<close>), and U2
  submits 21 and 15. The result is inserted and the direct message says the scores were
  recorded, but \<open>delete_match\<close> stands after the post inside the \<open>try\<close> block and is
  skipped: the trace has no delete statement and the match row is still in the table.
\<close>

theorem failed_post_leaves_match_row:
  "fst (handle_score_submission Sqlite private_channel_client (score_body_of ''21'' ''15'' ''U2'')
          1700000100 one_match_state) = Returned
   \<and> matches (snd (handle_score_submission Sqlite private_channel_client
                      (score_body_of ''21'' ''15'' ''U2'') 1700000100 one_match_state))
        ''match_U2_1700000000'' = Some match1
   \<and> trace (snd (handle_score_submission Sqlite private_channel_client
                    (score_body_of ''21'' ''15'' ''U2'') 1700000100 one_match_state)) =
       [Ack,
        Db (SelectMatch ''match_U2_1700000000''),
        Api (ConversationsJoin ''C1''),
        Db (InsertResult
              \<lparr>r_match_id = ''match_U2_1700000000'', r_challenger = ''U2'', r_opponent = ''U1'',
               r_challenger_score = 21, r_opponent_score = 15, r_winner = Some ''U2'',
               r_channel = ''C1'', r_submitted_by = ''U2'', r_submitted_at = 1700000100\<rparr>),
        Api (ChatPostMessage ''C1''
               (''Match Result: <@U2> vs <@U1>\<newline>*Scores:* <@U2> 21 - <@U1> 15''
                @ ''\<newline>*Winner:* <@U2>'') []),
        Api (ConversationsOpen ''U2''),
        Api (ChatPostMessage ''DU2''
               (''I couldn't post the match result to the channel (error: `not_in_channel`), ''
                @ ''but your scores were recorded as 21-15 for match `match_U2_1700000000`.'')
               [])]"
  by (simp add: handle_score_submission_def score_body_of_def one_match_state_def match1_def
        private_channel_client_def get_match_def emit_def call_def score_try_def
        score_post_failed_def record_result_def winner_of_def result_text_def winner_line_def
        Let_def eval_defs)

text \<open>
  Claim C2 on the same run, continued. Since the row survived, the same submission a
  second time finds the match again and inserts a second result for the same match id.
\<close>

theorem resubmission_appends_second_result:
  "fst (handle_score_submission Sqlite private_channel_client (score_body_of ''21'' ''15'' ''U2'')
          1700000200
          (snd (handle_score_submission Sqlite private_channel_client
                  (score_body_of ''21'' ''15'' ''U2'') 1700000100 one_match_state)))
     = Returned
   \<and> map r_match_id
        (results
           (snd (handle_score_submission Sqlite private_channel_client
                   (score_body_of ''21'' ''15'' ''U2'') 1700000200
                   (snd (handle_score_submission Sqlite private_channel_client
                           (score_body_of ''21'' ''15'' ''U2'') 1700000100 one_match_state)))))
     = [''match_U2_1700000000'', ''match_U2_1700000000'']"
  by (simp add: handle_score_submission_def score_body_of_def one_match_state_def match1_def
        private_channel_client_def get_match_def emit_def call_def score_try_def
        score_post_failed_def record_result_def winner_of_def result_text_def winner_line_def
        Let_def eval_defs)

section \<open>Match ids\<close>

text \<open>
  Claim C8 on a concrete run. The id is made of the challenger's user id and the clock
  in whole seconds, so two challenges by U2 within one second get the same id: the second
  challenge (to U3) overwrites the row of the first (to U1), and one row is left.
\<close>

theorem same_second_same_match_id:
  "matches (snd (handle_pingpong Sqlite ok_client (challenge_by_U2 ''challenge <@U1>'')
                   1700000000 1700000000 empty_state)) ''match_U2_1700000000''
     = Some match1
   \<and> matches (snd (handle_pingpong Sqlite ok_client (challenge_by_U2 ''challenge <@U3>'')
                      1700000000 1700000000
                      (snd (handle_pingpong Sqlite ok_client (challenge_by_U2 ''challenge <@U1>'')
                              1700000000 1700000000 empty_state)))) ''match_U2_1700000000''
     = Some (match1\<lparr>m_opponent := ''U3''\<rparr>)
   \<and> dom (matches (snd (handle_pingpong Sqlite ok_client (challenge_by_U2 ''challenge <@U3>'')
                      1700000000 1700000000
                      (snd (handle_pingpong Sqlite ok_client (challenge_by_U2 ''challenge <@U1>'')
                              1700000000 1700000000 empty_state)))))
     = {''match_U2_1700000000''}"
  by (simp add: handle_pingpong_def challenge_by_U2_def empty_state_def match1_def
        startswith_def resolve_opponent_def match_canonical_def is_id_char_def
        new_match_id_def create_match_def emit_def Let_def eval_defs)


section \<open>The opponent resolver against the spec's mention tokens\<close>

text \<open>
  At every position the two matchers accept exactly the tokens of the spec, with the
  same identifier; \<open>re_search\<close> returns the match at the first position that has one.
\<close>

lemma not_id_char_close [simp]: "\<not> is_id_char CHR ''>''" "\<not> is_id_char CHR ''|''"
  by (simp_all add: is_id_char_def)

lemma match_canonical_complete:
  assumes "canonical_mention tok uid"
  shows "match_canonical (tok @ rest) = Some uid"
proof -
  from assms have u: "uid \<noteq> []" "\<And>x. x \<in> set uid \<Longrightarrow> is_id_char x"
    by (auto simp: canonical_mention_def list_all_iff)
  from assms consider
      (plain) "tok = ''<@'' @ uid @ ''>''"
    | (named) name where "name \<noteq> []" "list_all (\<lambda>c. c \<noteq> CHR ''>'') name"
        "tok = ''<@'' @ uid @ ''|'' @ name @ ''>''"
    by (auto simp: canonical_mention_def)
  then show ?thesis
  proof cases
    case plain
    then show ?thesis
      using u by (simp add: match_canonical_def)
  next
    case named
    then have n: "\<And>x. x \<in> set name \<Longrightarrow> x \<noteq> CHR ''>''"
      by (simp add: list_all_iff)
    show ?thesis
      using u named(1) n by (simp add: named(3) match_canonical_def)
  qed
qed

lemma match_canonical_sound:
  assumes "match_canonical s = Some uid"
  shows "\<exists>tok rest. s = tok @ rest \<and> canonical_mention tok uid"
proof -
  from assms obtain r where s: "s = CHR ''<'' # CHR ''@'' # r"
    by (auto simp: match_canonical_def split: list.splits if_splits)
  let ?after = "dropWhile is_id_char r"
  from assms s have uid: "uid = takeWhile is_id_char r" "uid \<noteq> []"
    by (auto simp: match_canonical_def Let_def split: list.splits if_splits)
  then have idc: "list_all is_id_char uid"
    by (auto simp: list_all_iff dest: set_takeWhileD)
  from assms s obtain d more where a: "?after = d # more"
    by (auto simp: match_canonical_def Let_def split: list.splits if_splits)
  have r: "r = uid @ d # more"
    using a uid(1) takeWhile_dropWhile_id [of is_id_char r] by simp
  from assms s a consider (plain) "d = CHR ''>''"
    | (named) "d = CHR ''|''" "takeWhile (\<lambda>c. c \<noteq> CHR ''>'') more \<noteq> []"
        "dropWhile (\<lambda>c. c \<noteq> CHR ''>'') more \<noteq> []"
    by (auto simp: match_canonical_def Let_def split: list.splits if_splits)
  then show ?thesis
  proof cases
    case plain
    have "s = (''<@'' @ uid @ ''>'') @ more"
      using s r plain by simp
    moreover have "canonical_mention (''<@'' @ uid @ ''>'') uid"
      using uid(2) idc by (simp add: canonical_mention_def)
    ultimately show ?thesis by blast
  next
    case named
    let ?name = "takeWhile (\<lambda>c. c \<noteq> CHR ''>'') more"
    let ?close = "dropWhile (\<lambda>c. c \<noteq> CHR ''>'') more"
    from named(3) obtain e post where c: "?close = e # post"
      by (cases ?close) auto
    have "e = CHR ''>''"
      using hd_dropWhile [of "\<lambda>c. c \<noteq> CHR ''>''" more] named(3) c by simp
    then have more: "more = ?name @ CHR ''>'' # post"
      using c takeWhile_dropWhile_id [of "\<lambda>c. c \<noteq> CHR ''>''" more] by simp
    have nm: "list_all (\<lambda>c. c \<noteq> CHR ''>'') ?name"
      by (auto simp: list_all_iff dest: set_takeWhileD)
    have "s = (''<@'' @ uid @ ''|'' @ ?name @ ''>'') @ post"
      using s r named(1) more by simp
    moreover have "canonical_mention (''<@'' @ uid @ ''|'' @ ?name @ ''>'') uid"
      using uid(2) idc named(2) nm by (auto simp: canonical_mention_def)
    ultimately show ?thesis by blast
  qed
qed

lemma canonical_at_iff: "canonical_at text k uid \<longleftrightarrow> match_canonical (drop k text) = Some uid"
  unfolding canonical_at_def
  using match_canonical_complete match_canonical_sound by metis

lemma loose_at_iff: "loose_at text k uid \<longleftrightarrow> match_loose (drop k text) = Some uid"
proof
  assume "loose_at text k uid"
  then obtain c run rest where d: "drop k text = CHR ''@'' # c # run @ rest"
    and c: "c = CHR ''U'' \<or> c = CHR ''W''" and run: "run \<noteq> []" "list_all is_id_char run"
    and rest: "takeWhile is_id_char rest = []" and uid: "uid = c # run"
    unfolding loose_at_def by blast
  have "takeWhile is_id_char (run @ rest) = run"
    using run(2) rest by (simp add: list_all_iff)
  then show "match_loose (drop k text) = Some uid"
    using c run(1) uid by (auto simp: d match_loose_def)
next
  assume m: "match_loose (drop k text) = Some uid"
  then obtain c r where d: "drop k text = CHR ''@'' # c # r" and c: "c = CHR ''U'' \<or> c = CHR ''W''"
    by (auto simp: match_loose_def split: list.splits if_splits)
  from m d have uid: "uid = c # takeWhile is_id_char r" "takeWhile is_id_char r \<noteq> []"
    by (auto simp: match_loose_def Let_def split: list.splits if_splits)
  have "drop k text = CHR ''@'' # c # takeWhile is_id_char r @ dropWhile is_id_char r"
    using d by simp
  moreover have "list_all is_id_char (takeWhile is_id_char r)"
    by (auto simp: list_all_iff dest: set_takeWhileD)
  moreover have "takeWhile is_id_char (dropWhile is_id_char r) = []"
    by (metis takeWhile_eq_Nil_iff hd_dropWhile)
  ultimately show "loose_at text k uid"
    unfolding loose_at_def using c uid by blast
qed

lemma re_search_first:
  assumes "pat (drop k ws) = Some g" and "k < length ws"
      and "\<And>j. j < k \<Longrightarrow> pat (drop j ws) = None"
  shows "re_search pat ws = Some g"
  using assms
proof (induction ws arbitrary: k)
  case Nil
  then show ?case by simp
next
  case (Cons c cs)
  show ?case
  proof (cases k)
    case 0
    with Cons.prems(1) show ?thesis by simp
  next
    case (Suc n)
    have here: "pat (c # cs) = None"
      using Cons.prems(3) [of 0] Suc by simp
    have "re_search pat cs = Some g"
    proof (rule Cons.IH [of n])
      show "pat (drop n cs) = Some g" using Cons.prems(1) Suc by simp
      show "n < length cs" using Cons.prems(2) Suc by simp
      show "pat (drop j cs) = None" if "j < n" for j
        using Cons.prems(3) [of "Suc j"] that Suc by simp
    qed
    with here show ?thesis by simp
  qed
qed

lemma re_search_none:
  assumes "\<And>j. j < length ws \<Longrightarrow> pat (drop j ws) = None"
  shows "re_search pat ws = None"
  using assms
proof (induction ws)
  case Nil
  then show ?case by simp
next
  case (Cons c cs)
  have "pat (c # cs) = None"
    using Cons.prems [of 0] by simp
  moreover have "re_search pat cs = None"
  proof (rule Cons.IH)
    show "pat (drop j cs) = None" if "j < length cs" for j
      using Cons.prems [of "Suc j"] that by simp
  qed
  ultimately show ?case by simp
qed

lemma canonical_at_in_text: "canonical_at text k uid \<Longrightarrow> k < length text"
  by (cases "k < length text") (auto simp: canonical_at_iff match_canonical_def)

lemma loose_at_in_text: "loose_at text k uid \<Longrightarrow> k < length text"
  by (cases "k < length text") (auto simp: loose_at_iff match_loose_def)

lemma no_canonical_at_iff:
  "(\<forall>u. \<not> canonical_at ws j u) \<longleftrightarrow> match_canonical (drop j ws) = None"
  by (simp add: canonical_at_iff)

lemma no_loose_at_iff:
  "(\<forall>u. \<not> loose_at ws j u) \<longleftrightarrow> match_loose (drop j ws) = None"
  by (simp add: loose_at_iff)

lemma all_below_iff: "(\<forall>j<k. P j) \<longleftrightarrow> list_all P [0..<k]"
  by (auto simp: list_all_iff)

lemma re_search_none_everywhere:
  assumes "re_search pat ws = None" and "pat [] = None"
  shows "pat (drop j ws) = None"
  using assms(1)
proof (induction ws arbitrary: j)
  case Nil
  then show ?case using assms(2) by simp
next
  case (Cons c cs)
  then show ?case
    by (cases j) (auto split: option.splits)
qed

text \<open>The resolver finds nothing exactly in the texts that have neither kind of token.\<close>

lemma resolve_opponent_none_iff:
  "resolve_opponent ws = None \<longleftrightarrow> (\<forall>k u. \<not> canonical_at ws k u \<and> \<not> loose_at ws k u)"
proof
  assume n: "resolve_opponent ws = None"
  then have c: "re_search match_canonical ws = None" and l: "re_search match_loose ws = None"
    by (auto simp: resolve_opponent_def split: option.splits)
  have "match_canonical (drop k ws) = None" for k
    using re_search_none_everywhere [OF c] by (simp add: match_canonical_def)
  moreover have "match_loose (drop k ws) = None" for k
    using re_search_none_everywhere [OF l] by (simp add: match_loose_def)
  ultimately show "\<forall>k u. \<not> canonical_at ws k u \<and> \<not> loose_at ws k u"
    by (simp add: canonical_at_iff loose_at_iff)
next
  assume a: "\<forall>k u. \<not> canonical_at ws k u \<and> \<not> loose_at ws k u"
  have "re_search match_canonical ws = None"
  proof (rule re_search_none)
    show "match_canonical (drop j ws) = None" for j
      using a by (cases "match_canonical (drop j ws)") (auto simp: canonical_at_iff)
  qed
  moreover have "re_search match_loose ws = None"
  proof (rule re_search_none)
    show "match_loose (drop j ws) = None" for j
      using a by (cases "match_loose (drop j ws)") (auto simp: loose_at_iff)
  qed
  ultimately show "resolve_opponent ws = None"
    by (simp add: resolve_opponent_def)
qed

text \<open>
  Claim C6. When a canonical mention with identifier \<open>uid\<close> starts at position \<open>k\<close>
  of the text and none starts before \<open>k\<close>, the resolver returns \<open>uid\<close>: the enclosed
  identifier only, without the display name, and whatever loose mentions the text has.
  When the text has no canonical mention at all and its first loose mention, at
  position \<open>k\<close>, has identifier \<open>uid\<close>, the resolver returns \<open>uid\<close>.
\<close>

theorem resolver_extracts_first_mention:
  "(canonical_at text k uid \<and> (\<forall>j<k. \<forall>u. \<not> canonical_at text j u)
      \<longrightarrow> resolve_opponent text = Some uid)
   \<and> ((\<forall>j u. \<not> canonical_at text j u) \<and> loose_at text k uid
        \<and> (\<forall>j<k. \<forall>u. \<not> loose_at text j u)
      \<longrightarrow> resolve_opponent text = Some uid)"
proof (intro conjI impI)
  assume h: "canonical_at text k uid \<and> (\<forall>j<k. \<forall>u. \<not> canonical_at text j u)"
  have "re_search match_canonical text = Some uid"
  proof (rule re_search_first [of _ k])
    show "match_canonical (drop k text) = Some uid"
      using h by (simp add: canonical_at_iff)
    show "k < length text"
      using h canonical_at_in_text by blast
    show "match_canonical (drop j text) = None" if "j < k" for j
      using h that by (cases "match_canonical (drop j text)") (auto simp: canonical_at_iff)
  qed
  then show "resolve_opponent text = Some uid"
    by (simp add: resolve_opponent_def)
next
  assume h: "(\<forall>j u. \<not> canonical_at text j u) \<and> loose_at text k uid
             \<and> (\<forall>j<k. \<forall>u. \<not> loose_at text j u)"
  have "re_search match_canonical text = None"
  proof (rule re_search_none)
    show "match_canonical (drop j text) = None" for j
      using h by (cases "match_canonical (drop j text)") (auto simp: canonical_at_iff)
  qed
  moreover have "re_search match_loose text = Some uid"
  proof (rule re_search_first [of _ k])
    show "match_loose (drop k text) = Some uid"
      using h by (simp add: loose_at_iff)
    show "k < length text"
      using h loose_at_in_text by blast
    show "match_loose (drop j text) = None" if "j < k" for j
      using h that by (cases "match_loose (drop j text)") (auto simp: loose_at_iff)
  qed
  ultimately show "resolve_opponent text = Some uid"
    by (simp add: resolve_opponent_def)
qed


theorem resolver_extracts_first_mention_witness:
  "canonical_at ''challenge <@u1> <@U1|bob the builder> and @W2X <@U3>'' 16 ''U1''
   \<and> resolve_opponent ''challenge <@u1> <@U1|bob the builder> and @W2X <@U3>'' = Some ''U1''
   \<and> loose_at ''challenge <@u1|x> @Ux @W2X9y <@U3|>'' 22 ''W2X9''
   \<and> resolve_opponent ''challenge <@u1|x> @Ux @W2X9y <@U3|>'' = Some ''W2X9''"
proof -
  let ?t1 = "''challenge <@u1> <@U1|bob the builder> and @W2X <@U3>''"
  let ?t2 = "''challenge <@u1|x> @Ux @W2X9y <@U3|>''"
  have c1: "canonical_at ?t1 16 ''U1''"
    unfolding canonical_at_iff by (simp add: match_canonical_def is_id_char_def)
  have c2: "\<forall>j<16. \<forall>u. \<not> canonical_at ?t1 j u"
    unfolding no_canonical_at_iff all_below_iff by code_simp
  have n: "re_search match_canonical ?t2 = None"
    by code_simp
  have l0: "\<forall>j u. \<not> canonical_at ?t2 j u"
    unfolding no_canonical_at_iff
    using re_search_none_everywhere [OF n] by (simp add: match_canonical_def)
  have l1: "loose_at ?t2 22 ''W2X9''"
    unfolding loose_at_iff by (simp add: match_loose_def is_id_char_def)
  have l2: "\<forall>j<22. \<forall>u. \<not> loose_at ?t2 j u"
    unfolding no_loose_at_iff all_below_iff by code_simp
  show ?thesis
    using resolver_extracts_first_mention [of ?t1 16 "''U1''"]
      resolver_extracts_first_mention [of ?t2 22 "''W2X9''"] c1 c2 l0 l1 l2
    by blast
qed

section \<open>The picker path\<close>

lemma split_once_metadata:
  assumes "CHR ''|'' \<notin> set channel_id"
  shows "split_once CHR ''|'' (channel_id @ ''|'' @ user_id) = Some (channel_id, user_id)"
proof -
  have "\<And>x. x \<in> set channel_id \<Longrightarrow> x \<noteq> CHR ''|''"
    using assms by auto
  then show ?thesis
    by (simp add: split_once_def)
qed

lemma matches_pick_post_failed [simp]:
  "matches (pick_post_failed client body challenger_id err s) = matches s"
  by (simp add: pick_post_failed_def call_def emit_def Let_def split: api_outcome.split)

lemma results_pick_post_failed [simp]:
  "results (pick_post_failed client body challenger_id err s) = results s"
  by (simp add: pick_post_failed_def call_def emit_def Let_def split: api_outcome.split)

lemma results_handle_pick_opponent:
  "results (snd (handle_pick_opponent db client body now_id now_row s)) = results s"
  by (simp add: handle_pick_opponent_def create_match_def call_def emit_def Let_def
        split: api_outcome.split option.split prod.split)

lemma matches_handle_pick_opponent:
  assumes "split_once CHR ''|'' (p_private_metadata body) = Some (channel_id, challenger_id)"
      and "integer_fits db now_row"
  shows "matches (snd (handle_pick_opponent db client body now_id now_row s)) =
           (matches s)(new_match_id challenger_id now_id \<mapsto>
              \<lparr>m_id = new_match_id challenger_id now_id, m_challenger = challenger_id,
               m_opponent = p_selected_user body, m_channel = channel_id,
               m_created_at = now_row\<rparr>)"
  using assms
  by (simp add: handle_pick_opponent_def create_match_def call_def emit_def Let_def
        split: api_outcome.split)

lemma matches_handle_pingpong_resolved:
  assumes "startswith (strip (c_text cmd)) ''challenge''"
      and "resolve_opponent (strip (c_text cmd)) = Some opponent_id"
      and "opponent_id \<noteq> []"
      and "integer_fits db now_row"
  shows "matches (snd (handle_pingpong db client cmd now_id now_row s)) =
           (matches s)(new_match_id (c_user_id cmd) now_id \<mapsto>
              \<lparr>m_id = new_match_id (c_user_id cmd) now_id, m_challenger = c_user_id cmd,
               m_opponent = opponent_id, m_channel = c_channel_id cmd,
               m_created_at = now_row\<rparr>)"
  using assms
  by (simp add: handle_pingpong_def create_match_def emit_def Let_def)

lemma handle_pingpong_unresolved:
  assumes "startswith (strip (c_text cmd)) ''challenge''"
      and "resolve_opponent (strip (c_text cmd)) = None"
  shows "snd (handle_pingpong db client cmd now_id now_row s) =
           s\<lparr>trace := trace s @
               [Ack, Api (ViewsOpen (c_trigger_id cmd)
                            (pick_opponent_view (c_channel_id cmd) (c_user_id cmd)))]\<rparr>"
  using assms
  by (simp add: handle_pingpong_def call_last_def call_def emit_def Let_def
        split: api_outcome.split)

text \<open>
  Claim C7. For a challenge text in which the resolver finds no mention, the handler
  changes neither table and its only action after the acknowledgement is to open the
  picker: the modal with callback \<open>pingpong_pick_opponent\<close>, one input block holding
  a user select, and the channel and the issuing user in its \<open>private_metadata\<close>.
  The submission of that picker with user \<open>picked\<close> stores a match with the issuer as
  challenger, \<open>picked\<close> as opponent and the original channel, under the id made from
  the issuer and the clock, and leaves the results alone: it stores the row the
  synchronous path stores for a text that mentions \<open>picked\<close>, at the same clock
  readings. The row is stored before anything is posted, so whatever the Slack client
  answers. Channel ids are taken to be free of the separator \<^verbatim>\<open>|\<close> of the
  metadata, as the ids Slack assigns are, and the clock of the later event to fit the
  integer column of the database.
\<close>

theorem picker_path_converges:
  assumes "startswith (strip (c_text cmd)) ''challenge''"
      and "resolve_opponent (strip (c_text cmd)) = None"
      and "CHR ''|'' \<notin> set (c_channel_id cmd)"
      and "integer_fits db now_row2"
  shows "snd (handle_pingpong db client cmd now_id now_row s) =
           s\<lparr>trace := trace s @
               [Ack,
                Api (ViewsOpen (c_trigger_id cmd)
                       \<lparr>callback_id = Some ''pingpong_pick_opponent'',
                        private_metadata = Some (c_channel_id cmd @ ''|'' @ c_user_id cmd),
                        title = ''Pingpong Challenge'',
                        submit = Some ''Challenge'',
                        close = ''Cancel'',
                        blocks = [Input ''opponent_block'' ''Opponent''
                                    (UsersSelect ''opponent_select''
                                       ''Pick someone to challenge'')]\<rparr>)]\<rparr>
         \<and> matches (snd (handle_pick_opponent db client2
                            \<lparr>p_private_metadata = c_channel_id cmd @ ''|'' @ c_user_id cmd,
                             p_selected_user = picked, p_view_id = view_id\<rparr>
                            now_id2 now_row2 s2)) =
             (matches s2)(new_match_id (c_user_id cmd) now_id2 \<mapsto>
                \<lparr>m_id = new_match_id (c_user_id cmd) now_id2, m_challenger = c_user_id cmd,
                 m_opponent = picked, m_channel = c_channel_id cmd,
                 m_created_at = now_row2\<rparr>)
         \<and> results (snd (handle_pick_opponent db client2
                            \<lparr>p_private_metadata = c_channel_id cmd @ ''|'' @ c_user_id cmd,
                             p_selected_user = picked, p_view_id = view_id\<rparr>
                            now_id2 now_row2 s2)) = results s2
         \<and> (\<forall>txt2 client3.
               startswith (strip txt2) ''challenge''
               \<and> resolve_opponent (strip txt2) = Some picked \<and> picked \<noteq> []
               \<longrightarrow> matches (snd (handle_pingpong db client3 (cmd\<lparr>c_text := txt2\<rparr>)
                                    now_id2 now_row2 s2)) =
                   matches (snd (handle_pick_opponent db client2
                                   \<lparr>p_private_metadata =
                                      c_channel_id cmd @ ''|'' @ c_user_id cmd,
                                    p_selected_user = picked, p_view_id = view_id\<rparr>
                                   now_id2 now_row2 s2)))"
proof -
  let ?body = "\<lparr>p_private_metadata = c_channel_id cmd @ ''|'' @ c_user_id cmd,
                 p_selected_user = picked, p_view_id = view_id\<rparr>"
  have sp: "split_once CHR ''|'' (p_private_metadata ?body) =
              Some (c_channel_id cmd, c_user_id cmd)"
    using split_once_metadata [OF assms(3)] by simp
  have pick: "matches (snd (handle_pick_opponent db client2 ?body now_id2 now_row2 s2)) =
             (matches s2)(new_match_id (c_user_id cmd) now_id2 \<mapsto>
                \<lparr>m_id = new_match_id (c_user_id cmd) now_id2, m_challenger = c_user_id cmd,
                 m_opponent = picked, m_channel = c_channel_id cmd,
                 m_created_at = now_row2\<rparr>)"
    using matches_handle_pick_opponent [OF sp assms(4)] by simp
  have res: "results (snd (handle_pick_opponent db client2 ?body now_id2 now_row2 s2))
               = results s2"
    using results_handle_pick_opponent by simp
  have sync: "matches (snd (handle_pingpong db client3 (cmd\<lparr>c_text := txt2\<rparr>)
                              now_id2 now_row2 s2)) =
              matches (snd (handle_pick_opponent db client2 ?body now_id2 now_row2 s2))"
    if "startswith (strip txt2) ''challenge''"
      and "resolve_opponent (strip txt2) = Some picked" and "picked \<noteq> []"
    for txt2 client3
    using matches_handle_pingpong_resolved [of "cmd\<lparr>c_text := txt2\<rparr>" picked db now_row2]
      that pick assms(4)
    by simp
  show ?thesis
    using handle_pingpong_unresolved [OF assms(1) assms(2)] pick res sync
    by (simp add: pick_opponent_view_def)
qed

theorem picker_path_converges_witness:
  "trace (snd (handle_pingpong Sqlite ok_client (challenge_by_U2 '' challenge @bob '')
                 1700000000 1700000000 empty_state)) =
     [Ack,
      Api (ViewsOpen ''T1''
             \<lparr>callback_id = Some ''pingpong_pick_opponent'',
              private_metadata = Some ''C1|U2'',
              title = ''Pingpong Challenge'',
              submit = Some ''Challenge'',
              close = ''Cancel'',
              blocks = [Input ''opponent_block'' ''Opponent''
                          (UsersSelect ''opponent_select'' ''Pick someone to challenge'')]\<rparr>)]
   \<and> matches (snd (handle_pingpong Sqlite ok_client (challenge_by_U2 '' challenge @bob '')
                      1700000000 1700000000 empty_state)) = Map.empty
   \<and> matches (snd (handle_pick_opponent Sqlite private_channel_client
                      \<lparr>p_private_metadata = ''C1|U2'', p_selected_user = ''U1'',
                       p_view_id = ''V1''\<rparr> 1700000000 1700000000 empty_state)) =
       [''match_U2_1700000000'' \<mapsto> match1]
   \<and> matches (snd (handle_pingpong Sqlite ok_client (challenge_by_U2 ''challenge <@U1>'')
                      1700000000 1700000000 empty_state)) =
       [''match_U2_1700000000'' \<mapsto> match1]"
proof -
  let ?cmd = "challenge_by_U2 '' challenge @bob ''"
  have a: "startswith (strip (c_text ?cmd)) ''challenge''"
    by (simp add: challenge_by_U2_def startswith_def strip_def isspace_def)
  have b: "resolve_opponent (strip (c_text ?cmd)) = None"
    by (simp add: challenge_by_U2_def strip_def isspace_def resolve_opponent_def
          match_canonical_def match_loose_def)
  have c: "CHR ''|'' \<notin> set (c_channel_id ?cmd)"
    by (simp add: challenge_by_U2_def)
  have f: "integer_fits Sqlite 1700000000"
    by (simp add: integer_fits_def)
  have d: "startswith (strip ''challenge <@U1>'') ''challenge''
           \<and> resolve_opponent (strip ''challenge <@U1>'') = Some ''U1'' \<and> ''U1'' \<noteq> []"
    by (simp add: startswith_def strip_def isspace_def resolve_opponent_def
          match_canonical_def is_id_char_def)
  have e: "new_match_id ''U2'' 1700000000 = ''match_U2_1700000000''"
    by (simp add: new_match_id_def eval_defs)
  show ?thesis
    using picker_path_converges [OF a b c f, of ok_client 1700000000 1700000000 empty_state
        private_channel_client "''U1''" "''V1''" 1700000000 empty_state] d e
    by (simp add: challenge_by_U2_def empty_state_def match1_def)
qed

end
